theory Spec2Isabelle
  imports Main "HOL-Library.Word"
begin

section \<open>Data model\<close>

text \<open>
  The program is a Go inventory reconciler. Go's \<open>int\<close> is modelled as a 64-bit
  machine word (its width on amd64 and arm64): \<open>+\<close> and \<open>-\<close> wrap around, and the
  comparisons of the source are the signed ones (\<open><s\<close>, \<open>sint\<close>). Go strings are byte
  sequences, as HOL's \<open>string\<close> is. The \<open>float64\<close> price is carried as its IEEE-754
  bit pattern: reconciliation never computes with it.
\<close>

type_synonym go_int = "64 word"
type_synonym float64 = "64 word"

record Producto =
  ID :: string
  Nombre :: string
  Categoria :: string
  Precio :: float64
  Stock :: go_int

record Transaccion =
  Tipo :: string
  IDProducto :: string
  Cantidad :: go_int
  Fecha :: string

section \<open>Formatting\<close>

text \<open>The verb \<open>%d\<close> of \<open>fmt.Sprintf\<close>: base ten, a leading minus sign for negatives.\<close>

fun digitos :: "nat \<Rightarrow> string" where
  "digitos n =
     (if n < 10 then [''0123456789'' ! n]
      else digitos (n div 10) @ [''0123456789'' ! (n mod 10)])"

declare digitos.simps [simp del]

definition fmt_d :: "int \<Rightarrow> string" where
  "fmt_d i = (if i < 0 then ''-'' @ digitos (nat (- i)) else digitos (nat i))"

text \<open>
  The three error messages of \<open>procesarTransacciones\<close>. The letter o with acute accent
  of the source text is the two bytes C3 B3 of its UTF-8 encoding.
\<close>

definition o_acute :: string where
  "o_acute = [CHR 0xC3, CHR 0xB3]"

definition msgNoEncontrado :: "Transaccion \<Rightarrow> string" where
  "msgNoEncontrado t =
     ''ERROR: Producto '' @ IDProducto t @ '' no encontrado en transacci'' @ o_acute
       @ ''n de tipo '' @ Tipo t @ '' (fecha: '' @ Fecha t @ '')''"

definition msgStockInsuficiente :: "Producto \<Rightarrow> Transaccion \<Rightarrow> string" where
  "msgStockInsuficiente p t =
     ''ERROR: Stock insuficiente para venta. Producto: '' @ ID p
       @ '', Stock actual: '' @ fmt_d (sint (Stock p))
       @ '', Cantidad solicitada: '' @ fmt_d (sint (Cantidad t))
       @ '' (fecha: '' @ Fecha t @ '')''"

definition msgTipoDesconocido :: "Transaccion \<Rightarrow> string" where
  "msgTipoDesconocido t =
     ''ERROR: Tipo de transacci'' @ o_acute @ ''n desconocido '' @ [CHR 0x27] @ Tipo t
       @ [CHR 0x27] @ '' para producto '' @ IDProducto t @ '' (fecha: '' @ Fecha t @ '')''"

section \<open>The reconciliation engine\<close>

text \<open>
  The first loop of \<open>procesarTransacciones\<close>: \<open>index[p.ID] = i\<close> for every position
  \<open>i\<close>, in slice order, so a later product overwrites the entry of an earlier
  one with the same identifier.
\<close>

fun construirIndice :: "Producto list \<Rightarrow> nat \<Rightarrow> (string \<rightharpoonup> nat) \<Rightarrow> (string \<rightharpoonup> nat)" where
  "construirIndice [] i index = index"
| "construirIndice (p # ps) i index = construirIndice ps (Suc i) (index(ID p \<mapsto> i))"

text \<open>The index as \<open>procesarTransacciones\<close> builds it: from position 0, on an empty map.\<close>

abbreviation indiceDe :: "Producto list \<Rightarrow> (string \<rightharpoonup> nat)" where
  "indiceDe productos \<equiv> construirIndice productos 0 Map.empty"

text \<open>
  The body of the second loop, on the pair of the slice \<open>productos\<close> (mutated in place
  by the source, returned updated here) and the accumulated \<open>errores\<close>. The position
  read from the index is always inside the slice (lemma \<open>indice_Some\<close> below), so the
  reads \<open>productos[pos]\<close> never panic.
\<close>

fun aplicarTransaccion ::
  "(string \<rightharpoonup> nat) \<Rightarrow> Transaccion \<Rightarrow> Producto list \<times> string list \<Rightarrow> Producto list \<times> string list" where
  "aplicarTransaccion index t (productos, errores) =
     (case index (IDProducto t) of
        None \<Rightarrow> (productos, errores @ [msgNoEncontrado t])
      | Some pos \<Rightarrow>
          if Tipo t = ''VENTA'' then
            (if Stock (productos ! pos) <s Cantidad t
             then (productos, errores @ [msgStockInsuficiente (productos ! pos) t])
             else (productos[pos := (productos ! pos)\<lparr>Stock := Stock (productos ! pos) - Cantidad t\<rparr>],
                   errores))
          else if Tipo t = ''COMPRA'' then
            (productos[pos := (productos ! pos)\<lparr>Stock := Stock (productos ! pos) + Cantidad t\<rparr>],
             errores)
          else if Tipo t = ''DEVOLUCION'' then
            (productos[pos := (productos ! pos)\<lparr>Stock := Stock (productos ! pos) + Cantidad t\<rparr>],
             errores)
          else (productos, errores @ [msgTipoDesconocido t]))"

fun bucleTransacciones ::
  "(string \<rightharpoonup> nat) \<Rightarrow> Transaccion list \<Rightarrow> Producto list \<times> string list \<Rightarrow> Producto list \<times> string list" where
  "bucleTransacciones index [] st = st"
| "bucleTransacciones index (t # ts) st = bucleTransacciones index ts (aplicarTransaccion index t st)"

text \<open>
  \<open>procesarTransacciones\<close> returns \<open>errores\<close>; the caller reads the mutated slice
  afterwards, so the model returns both.
\<close>

definition procesarTransacciones :: "Producto list \<Rightarrow> Transaccion list \<Rightarrow> Producto list \<times> string list" where
  "procesarTransacciones productos transacciones =
     bucleTransacciones (indiceDe productos) transacciones (productos, [])"

section \<open>The low-stock report\<close>

datatype error = ErrCrear string

text \<open>
  \<open>generarReporteBajoStock\<close> creates the file and writes to it; the outcome of
  \<open>os.Create\<close> is a parameter (\<open>None\<close> for a nil error), and the result is the
  sequence of writes made to the file, one entry for each \<open>Fprintln\<close>/\<open>Fprintf\<close> call.
  The counter is bounded by the slice length, so it is an unbounded integer here.
\<close>

definition lineaReporte :: "Producto \<Rightarrow> string" where
  "lineaReporte p =
     ''ID: '' @ ID p @ '' | '' @ Nombre p @ '' | Stock actual: '' @ fmt_d (sint (Stock p))
       @ '' unidades'' @ [CHR 0x0A]"

fun bucleReporte :: "Producto list \<Rightarrow> go_int \<Rightarrow> string list \<times> int \<Rightarrow> string list \<times> int" where
  "bucleReporte [] limite (f, count) = (f, count)"
| "bucleReporte (p # ps) limite (f, count) =
     (if Stock p <s limite
      then bucleReporte ps limite (f @ [lineaReporte p], count + 1)
      else bucleReporte ps limite (f, count))"

definition generarReporteBajoStock :: "string option \<Rightarrow> Producto list \<Rightarrow> go_int \<Rightarrow> error + string list" where
  "generarReporteBajoStock crear productos limite =
     (case crear of
        Some err \<Rightarrow> Inl (ErrCrear (''no se pudo crear reporte bajo stock: '' @ err))
      | None \<Rightarrow>
          (let f = [''ALERTA: PRODUCTOS CON BAJO STOCK'' @ [CHR 0x0A],
                    ''================================'' @ [CHR 0x0A]];
               (f', count) = bucleReporte productos limite (f, 0)
           in Inr (f' @ [''Total de productos con bajo stock: '' @ fmt_d count @ [CHR 0x0A]])))"

section \<open>Specification-side notions\<close>

text \<open>The fields of a product that reconciliation must leave alone.\<close>

definition marco :: "Producto \<Rightarrow> string \<times> string \<times> string \<times> float64" where
  "marco p = (ID p, Nombre p, Categoria p, Precio p)"

text \<open>A return relabelled as a purchase, to compare the two kinds on whole runs.\<close>

definition comoCompra :: "Transaccion \<Rightarrow> Transaccion" where
  "comoCompra t = (if Tipo t = ''DEVOLUCION'' then t\<lparr>Tipo := ''COMPRA''\<rparr> else t)"

text \<open>
  The three failure conditions of the specification, on the catalog as it stands when the
  transaction is reached: the target identifier is not found, a sale asks for more than
  the stock of its target, or the kind is not recognised. The target of an identifier
  is the last product carrying it.
\<close>

definition objetivo :: "Producto list \<Rightarrow> string \<Rightarrow> Producto" where
  "objetivo ps k = last (filter (\<lambda>p. ID p = k) ps)"

definition condicionFallo :: "Producto list \<Rightarrow> Transaccion \<Rightarrow> bool" where
  "condicionFallo ps t \<longleftrightarrow>
     IDProducto t \<notin> ID ` set ps
     \<or> (Tipo t = ''VENTA'' \<and> Stock (objetivo ps (IDProducto t)) <s Cantidad t)
     \<or> (Tipo t \<noteq> ''VENTA'' \<and> Tipo t \<noteq> ''COMPRA'' \<and> Tipo t \<noteq> ''DEVOLUCION'')"

definition numFallos :: "Producto list \<Rightarrow> Transaccion list \<Rightarrow> nat" where
  "numFallos productos ts =
     length (filter (\<lambda>k. condicionFallo (fst (procesarTransacciones productos (take k ts))) (ts ! k))
               [0..<length ts])"

section \<open>Concrete catalogs and transactions\<close>

definition ej_lleno :: Producto where
  "ej_lleno = \<lparr>ID = ''P003'', Nombre = ''Cable'', Categoria = ''Accesorios'',
                Precio = 0x4008000000000000, Stock = 0x7FFFFFFFFFFFFFFF\<rparr>"

definition ej_duplicado :: Producto where
  "ej_duplicado = \<lparr>ID = ''P001'', Nombre = ''Teclado mecanico'', Categoria = ''Perifericos'',
                    Precio = 0x4049000000000000, Stock = 7\<rparr>"

definition ej_teclado :: Producto where
  "ej_teclado = \<lparr>ID = ''P001'', Nombre = ''Teclado'', Categoria = ''Perifericos'',
                  Precio = 0x4039000000000000, Stock = 5\<rparr>"

definition ej_raton :: Producto where
  "ej_raton = \<lparr>ID = ''P002'', Nombre = ''Raton'', Categoria = ''Perifericos'',
                Precio = 0x4028000000000000, Stock = 20\<rparr>"

definition ej_catalogo :: "Producto list" where
  "ej_catalogo = [ej_teclado, ej_raton]"

definition ej_tx :: "string \<Rightarrow> string \<Rightarrow> go_int \<Rightarrow> Transaccion" where
  "ej_tx tipo ident cantidad =
     \<lparr>Tipo = tipo, IDProducto = ident, Cantidad = cantidad, Fecha = ''2024-01-15''\<rparr>"

section \<open>The index\<close>

lemma construirIndice_snoc:
  "construirIndice (ps @ [p]) i m = (construirIndice ps i m)(ID p \<mapsto> i + length ps)"
  by (induction ps arbitrary: i m) simp_all

lemma indice_Some:
  "construirIndice ps 0 Map.empty k = Some pos \<longleftrightarrow>
     pos < length ps \<and> ID (ps ! pos) = k \<and> (\<forall>j. pos < j \<and> j < length ps \<longrightarrow> ID (ps ! j) \<noteq> k)"
proof (induction ps arbitrary: pos rule: rev_induct)
  case Nil
  show ?case by simp
next
  case (snoc p ps)
  show ?case
  proof (cases "k = ID p")
    case True
    have "(length ps < length (ps @ [p]) \<and> ID ((ps @ [p]) ! length ps) = k \<and>
          (\<forall>j. length ps < j \<and> j < length (ps @ [p]) \<longrightarrow> ID ((ps @ [p]) ! j) \<noteq> k))"
      using True by auto
    moreover have "pos = length ps"
      if "pos < length (ps @ [p])" "\<forall>j. pos < j \<and> j < length (ps @ [p]) \<longrightarrow> ID ((ps @ [p]) ! j) \<noteq> k"
    proof (rule ccontr)
      assume "pos \<noteq> length ps"
      with that(1) have "pos < length ps" by simp
      with that(2) [rule_format, of "length ps"] have "ID ((ps @ [p]) ! length ps) \<noteq> k" by simp
      with True show False by simp
    qed
    ultimately show ?thesis
      using True by (auto simp: construirIndice_snoc)
  next
    case False
    have "construirIndice (ps @ [p]) 0 Map.empty k = construirIndice ps 0 Map.empty k"
      using False by (simp add: construirIndice_snoc)
    moreover have "(pos < length (ps @ [p]) \<and> ID ((ps @ [p]) ! pos) = k \<and>
          (\<forall>j. pos < j \<and> j < length (ps @ [p]) \<longrightarrow> ID ((ps @ [p]) ! j) \<noteq> k)) \<longleftrightarrow>
          (pos < length ps \<and> ID (ps ! pos) = k \<and> (\<forall>j. pos < j \<and> j < length ps \<longrightarrow> ID (ps ! j) \<noteq> k))"
      using False by (auto simp: nth_append less_Suc_eq split: if_splits)
    ultimately show ?thesis using snoc.IH by simp
  qed
qed

lemma indice_None:
  "construirIndice ps 0 Map.empty k = None \<longleftrightarrow> k \<notin> ID ` set ps"
  by (induction ps rule: rev_induct) (auto simp: construirIndice_snoc)

lemma indice_cong:
  "map ID ps = map ID ps' \<Longrightarrow> construirIndice ps i m = construirIndice ps' i m"
proof (induction ps arbitrary: ps' i m)
  case Nil
  then show ?case by simp
next
  case (Cons p ps)
  then obtain q qs where "ps' = q # qs" "ID q = ID p" "map ID ps = map ID qs"
    by (cases ps') auto
  with Cons.IH [of qs] show ?case by simp
qed

lemma indice_ultimo:
  "construirIndice ps 0 Map.empty k = Some pos \<Longrightarrow> ps ! pos = last (filter (\<lambda>p. ID p = k) ps)"
proof (induction ps arbitrary: pos rule: rev_induct)
  case Nil
  then show ?case by simp
next
  case (snoc p ps)
  show ?case
  proof (cases "k = ID p")
    case True
    with snoc.prems have "pos = length ps" by (simp add: construirIndice_snoc)
    with True show ?thesis by simp
  next
    case False
    with snoc.prems have s: "construirIndice ps 0 Map.empty k = Some pos"
      by (simp add: construirIndice_snoc)
    then have "pos < length ps" by (simp add: indice_Some)
    with snoc.IH [OF s] False show ?thesis by (simp add: nth_append)
  qed
qed


lemma marco_Stock_update:
  "map marco (ps[pos := (ps ! pos)\<lparr>Stock := s\<rparr>]) = map marco ps"
proof -
  have "map marco (ps[pos := (ps ! pos)\<lparr>Stock := s\<rparr>]) = (map marco ps)[pos := marco (ps ! pos)]"
    by (simp add: map_update marco_def)
  also have "\<dots> = map marco ps"
    by (cases "pos < length ps") (simp_all add: list_update_same_conv list_update_beyond)
  finally show ?thesis .
qed

lemma aplicar_marco:
  "map marco (fst (aplicarTransaccion index t st)) = map marco (fst st)"
  by (cases st) (simp add: marco_Stock_update split: option.splits)

lemma bucle_marco:
  "map marco (fst (bucleTransacciones index ts st)) = map marco (fst st)"
  by (induction ts arbitrary: st) (simp_all add: aplicar_marco)

lemma bucle_append:
  "bucleTransacciones index (xs @ ys) st = bucleTransacciones index ys (bucleTransacciones index xs st)"
  by (induction xs arbitrary: st) simp_all

lemma procesar_snoc:
  "procesarTransacciones productos (pre @ [t]) =
     aplicarTransaccion (construirIndice productos 0 Map.empty) t (procesarTransacciones productos pre)"
  by (simp add: procesarTransacciones_def bucle_append)

lemma procesar_ids:
  "map ID (fst (procesarTransacciones productos ts)) = map ID productos"
proof -
  have "map (fst \<circ> marco) (fst (procesarTransacciones productos ts)) = map (fst \<circ> marco) productos"
    unfolding map_map [symmetric] procesarTransacciones_def by (simp add: bucle_marco)
  moreover have "fst \<circ> marco = ID" by (rule ext) (simp add: marco_def)
  ultimately show ?thesis by simp
qed

section \<open>Facts about a run\<close>

lemma procesar_length:
  "length (fst (procesarTransacciones productos ts)) = length productos"
  using arg_cong [OF procesar_ids [of productos ts], of length] by simp

lemma procesar_indice:
  "indiceDe (fst (procesarTransacciones productos ts)) = indiceDe productos"
  by (rule indice_cong) (rule procesar_ids)

section \<open>Claims\<close>

text \<open>
  C3. Reconciliation never changes an identifier, name, category or price and never adds
  or removes a catalog entry: for every catalog and every transaction sequence (hence
  after every prefix of a run), the output catalog has the length of the input catalog
  and, position by position, the same identifiers, names, categories and prices.
\<close>

theorem catalogo_marco:
  "length (fst (procesarTransacciones productos ts)) = length productos
   \<and> map ID (fst (procesarTransacciones productos ts)) = map ID productos
   \<and> map Nombre (fst (procesarTransacciones productos ts)) = map Nombre productos
   \<and> map Categoria (fst (procesarTransacciones productos ts)) = map Categoria productos
   \<and> map Precio (fst (procesarTransacciones productos ts)) = map Precio productos"
proof -
  let ?ps = "fst (procesarTransacciones productos ts)"
  have m: "map marco ?ps = map marco productos"
    by (simp add: procesarTransacciones_def bucle_marco)
  have "map (g \<circ> marco) ?ps = map (g \<circ> marco) productos" for g :: "string \<times> string \<times> string \<times> float64 \<Rightarrow> 'a"
    using arg_cong [OF m, of "map g"] by simp
  note c = this
  have "map Nombre ?ps = map Nombre productos"
    using c [of "\<lambda>(i, n, c, p). n"] by (simp add: comp_def marco_def)
  moreover have "map Categoria ?ps = map Categoria productos"
    using c [of "\<lambda>(i, n, c, p). c"] by (simp add: comp_def marco_def)
  moreover have "map Precio ?ps = map Precio productos"
    using c [of "\<lambda>(i, n, c, p). p"] by (simp add: comp_def marco_def)
  ultimately show ?thesis
    by (simp add: procesar_ids procesar_length)
qed

theorem catalogo_marco_witness:
  "fst (procesarTransacciones ej_catalogo [ej_tx ''VENTA'' ''P001'' 2, ej_tx ''COMPRA'' ''P002'' 4])
     = [ej_teclado\<lparr>Stock := 3\<rparr>, ej_raton\<lparr>Stock := 24\<rparr>]
   \<and> map Nombre (fst (procesarTransacciones ej_catalogo
        [ej_tx ''VENTA'' ''P001'' 2, ej_tx ''COMPRA'' ''P002'' 4])) = [''Teclado'', ''Raton'']"
  using catalogo_marco [of ej_catalogo "[ej_tx ''VENTA'' ''P001'' 2, ej_tx ''COMPRA'' ''P002'' 4]"]
  by (simp add: procesarTransacciones_def ej_catalogo_def ej_teclado_def ej_raton_def ej_tx_def)

text \<open>
  C5. A transaction whose target identifier is not in the catalog, whatever its kind,
  appends exactly one error record naming the product id, the kind and the date, leaves
  the catalog as it was, and the run goes on with the transactions that follow.
\<close>

theorem no_encontrado:
  assumes "IDProducto t \<notin> ID ` set productos"
      and "procesarTransacciones productos pre = (ps, es)"
  shows "procesarTransacciones productos (pre @ [t]) =
           (ps, es @ [''ERROR: Producto '' @ IDProducto t @ '' no encontrado en transacci''
                        @ [CHR 0xC3, CHR 0xB3] @ ''n de tipo '' @ Tipo t
                        @ '' (fecha: '' @ Fecha t @ '')''])
         \<and> procesarTransacciones productos (pre @ t # rest) =
             bucleTransacciones (indiceDe productos) rest (procesarTransacciones productos (pre @ [t]))"
proof -
  have "indiceDe productos (IDProducto t) = None"
    using assms(1) by (simp add: indice_None)
  then have "procesarTransacciones productos (pre @ [t]) = (ps, es @ [msgNoEncontrado t])"
    using assms(2) by (simp add: procesar_snoc)
  moreover have "procesarTransacciones productos (pre @ t # rest) =
      bucleTransacciones (indiceDe productos) rest (procesarTransacciones productos (pre @ [t]))"
    by (simp add: procesarTransacciones_def bucle_append)
  ultimately show ?thesis
    by (simp add: msgNoEncontrado_def o_acute_def)
qed

theorem no_encontrado_witness:
  "IDProducto (ej_tx ''COMPRA'' ''P999'' 4) \<notin> ID ` set ej_catalogo
   \<and> procesarTransacciones ej_catalogo [ej_tx ''VENTA'' ''P001'' 2] = ([ej_teclado\<lparr>Stock := 3\<rparr>, ej_raton], [])
   \<and> procesarTransacciones ej_catalogo ([ej_tx ''VENTA'' ''P001'' 2] @ [ej_tx ''COMPRA'' ''P999'' 4]) =
       ([ej_teclado\<lparr>Stock := 3\<rparr>, ej_raton],
        [''ERROR: Producto P999 no encontrado en transacci'' @ [CHR 0xC3, CHR 0xB3]
           @ ''n de tipo COMPRA (fecha: 2024-01-15)''])"
proof -
  have a: "IDProducto (ej_tx ''COMPRA'' ''P999'' 4) \<notin> ID ` set ej_catalogo"
    by (simp add: ej_catalogo_def ej_teclado_def ej_raton_def ej_tx_def)
  have b: "procesarTransacciones ej_catalogo [ej_tx ''VENTA'' ''P001'' 2] = ([ej_teclado\<lparr>Stock := 3\<rparr>, ej_raton], [])"
    by (simp add: procesarTransacciones_def ej_catalogo_def ej_teclado_def ej_raton_def ej_tx_def)
  show ?thesis
    using a b no_encontrado [OF a b, of "[]"] by (simp add: ej_tx_def)
qed

lemma indice_en_curso:
  assumes "procesarTransacciones productos pre = (ps, es)"
      and "indiceDe productos k = Some pos"
  shows "pos < length ps \<and> ID (ps ! pos) = k \<and> (\<forall>j. pos < j \<and> j < length ps \<longrightarrow> ID (ps ! j) \<noteq> k)"
proof -
  have "indiceDe ps = indiceDe productos"
    using procesar_indice [of productos pre] assms(1) by simp
  with assms(2) have "indiceDe ps k = Some pos" by simp
  then show ?thesis by (simp add: indice_Some)
qed

lemma indice_encontrado:
  "k \<in> ID ` set productos \<Longrightarrow> \<exists>pos. indiceDe productos k = Some pos"
  using indice_None [of productos k] by (cases "indiceDe productos k") simp_all

lemma sint_resta:
  fixes a b :: go_int
  assumes "- (2 ^ 63) \<le> sint a - sint b" and "sint a - sint b < 2 ^ 63"
  shows "sint (a - b) = sint a - sint b"
  using assms by (simp add: sint_word_ariths signed_take_bit_int_eq_self)

lemma sint_suma:
  fixes a b :: go_int
  assumes "- (2 ^ 63) \<le> sint a + sint b" and "sint a + sint b < 2 ^ 63"
  shows "sint (a + b) = sint a + sint b"
  using assms by (simp add: sint_word_ariths signed_take_bit_int_eq_self)

lemma sint_cotas:
  fixes a :: go_int
  shows "- (2 ^ 63) \<le> sint a" and "sint a < 2 ^ 63"
  using sint_ge [of a] sint_lt [of a] by simp_all

text \<open>
  C1. A sale whose target identifier is in the catalog, applied after any prefix of a run:
  the index gives the position of a product with that identifier; if its current stock
  is strictly less than the requested quantity, exactly one error record is appended,
  naming the product id, the current stock, the requested quantity and the date, and
  the catalog is unchanged; otherwise no error is appended and only that product
  changes, its stock becoming the old stock minus the quantity, which is 0 when the two
  are equal. The subtraction is Go's on \<open>int\<close>; for a quantity that is not negative
  it is the subtraction of the integers.
\<close>

theorem venta_encontrada:
  assumes "Tipo t = ''VENTA''"
      and "IDProducto t \<in> ID ` set productos"
      and "procesarTransacciones productos pre = (ps, es)"
  shows "\<exists>pos. indiceDe productos (IDProducto t) = Some pos
           \<and> pos < length ps \<and> ID (ps ! pos) = IDProducto t
           \<and> (if Stock (ps ! pos) <s Cantidad t
              then procesarTransacciones productos (pre @ [t]) =
                     (ps, es @ [''ERROR: Stock insuficiente para venta. Producto: '' @ IDProducto t
                                  @ '', Stock actual: '' @ fmt_d (sint (Stock (ps ! pos)))
                                  @ '', Cantidad solicitada: '' @ fmt_d (sint (Cantidad t))
                                  @ '' (fecha: '' @ Fecha t @ '')''])
              else procesarTransacciones productos (pre @ [t]) =
                     (ps[pos := (ps ! pos)\<lparr>Stock := Stock (ps ! pos) - Cantidad t\<rparr>], es)
                   \<and> (Stock (ps ! pos) = Cantidad t \<longrightarrow> Stock (ps ! pos) - Cantidad t = 0)
                   \<and> (0 \<le>s Cantidad t \<longrightarrow>
                        sint (Stock (ps ! pos) - Cantidad t) = sint (Stock (ps ! pos)) - sint (Cantidad t)))"
proof -
  from assms(2) obtain pos where pos: "indiceDe productos (IDProducto t) = Some pos"
    using indice_encontrado by blast
  note cur = indice_en_curso [OF assms(3) pos]
  have step: "procesarTransacciones productos (pre @ [t]) =
      (if Stock (ps ! pos) <s Cantidad t
       then (ps, es @ [msgStockInsuficiente (ps ! pos) t])
       else (ps[pos := (ps ! pos)\<lparr>Stock := Stock (ps ! pos) - Cantidad t\<rparr>], es))"
    using assms(1,3) pos by (simp add: procesar_snoc)
  have ar: "sint (Stock (ps ! pos) - Cantidad t) = sint (Stock (ps ! pos)) - sint (Cantidad t)"
    if "\<not> Stock (ps ! pos) <s Cantidad t" "0 \<le>s Cantidad t"
  proof (rule sint_resta)
    from that have "0 \<le> sint (Cantidad t)" "sint (Cantidad t) \<le> sint (Stock (ps ! pos))"
      by (simp_all add: word_sle_eq word_sless_alt)
    with sint_cotas [of "Stock (ps ! pos)"]
    show "- (2 ^ 63) \<le> sint (Stock (ps ! pos)) - sint (Cantidad t)"
      and "sint (Stock (ps ! pos)) - sint (Cantidad t) < 2 ^ 63"
      by simp_all
  qed
  show ?thesis
  proof (intro exI [of _ pos] conjI)
    show "indiceDe productos (IDProducto t) = Some pos" by (rule pos)
    show "pos < length ps" using cur by simp
    show "ID (ps ! pos) = IDProducto t" using cur by simp
    show "if Stock (ps ! pos) <s Cantidad t
      then procesarTransacciones productos (pre @ [t]) =
             (ps, es @ [''ERROR: Stock insuficiente para venta. Producto: '' @ IDProducto t
                          @ '', Stock actual: '' @ fmt_d (sint (Stock (ps ! pos)))
                          @ '', Cantidad solicitada: '' @ fmt_d (sint (Cantidad t))
                          @ '' (fecha: '' @ Fecha t @ '')''])
      else procesarTransacciones productos (pre @ [t]) =
             (ps[pos := (ps ! pos)\<lparr>Stock := Stock (ps ! pos) - Cantidad t\<rparr>], es)
           \<and> (Stock (ps ! pos) = Cantidad t \<longrightarrow> Stock (ps ! pos) - Cantidad t = 0)
           \<and> (0 \<le>s Cantidad t \<longrightarrow>
                sint (Stock (ps ! pos) - Cantidad t) = sint (Stock (ps ! pos)) - sint (Cantidad t))"
      using step cur ar by (simp add: msgStockInsuficiente_def)
  qed
qed

theorem venta_encontrada_witness:
  "procesarTransacciones ej_catalogo [ej_tx ''VENTA'' ''P001'' 5] = ([ej_teclado\<lparr>Stock := 0\<rparr>, ej_raton], [])
   \<and> procesarTransacciones ej_catalogo ([ej_tx ''VENTA'' ''P001'' 5] @ [ej_tx ''VENTA'' ''P001'' 1]) =
       ([ej_teclado\<lparr>Stock := 0\<rparr>, ej_raton],
        [''ERROR: Stock insuficiente para venta. Producto: P001, Stock actual: 0, Cantidad solicitada: 1 (fecha: 2024-01-15)''])"
proof -
  have a: "Tipo (ej_tx ''VENTA'' ''P001'' 1) = ''VENTA''"
    by (simp add: ej_tx_def)
  have b: "IDProducto (ej_tx ''VENTA'' ''P001'' 1) \<in> ID ` set ej_catalogo"
    by (simp add: ej_catalogo_def ej_teclado_def ej_raton_def ej_tx_def)
  have c: "procesarTransacciones ej_catalogo [ej_tx ''VENTA'' ''P001'' 5] = ([ej_teclado\<lparr>Stock := 0\<rparr>, ej_raton], [])"
    by (simp add: procesarTransacciones_def ej_catalogo_def ej_teclado_def ej_raton_def ej_tx_def)
  have d: "indiceDe ej_catalogo ''P001'' = Some 0"
    by (simp add: ej_catalogo_def ej_teclado_def ej_raton_def)
  show ?thesis
    using c d venta_encontrada [OF a b c]
    by (simp add: ej_tx_def ej_teclado_def fmt_d_def digitos.simps word_sless_alt)
qed

text \<open>
  C6. A transaction whose target identifier is in the catalog and whose kind is none of
  VENTA, COMPRA and DEVOLUCION appends exactly one error record naming the kind, the
  product id and the date, and leaves the whole catalog unchanged.
\<close>

theorem tipo_desconocido:
  assumes "Tipo t \<noteq> ''VENTA''" and "Tipo t \<noteq> ''COMPRA''" and "Tipo t \<noteq> ''DEVOLUCION''"
      and "IDProducto t \<in> ID ` set productos"
      and "procesarTransacciones productos pre = (ps, es)"
  shows "procesarTransacciones productos (pre @ [t]) =
           (ps, es @ [''ERROR: Tipo de transacci'' @ [CHR 0xC3, CHR 0xB3] @ ''n desconocido ''
                        @ [CHR 0x27] @ Tipo t @ [CHR 0x27] @ '' para producto '' @ IDProducto t
                        @ '' (fecha: '' @ Fecha t @ '')''])"
proof -
  from assms(4) obtain pos where "indiceDe productos (IDProducto t) = Some pos"
    using indice_encontrado by blast
  then show ?thesis
    using assms(1,2,3,5) by (simp add: procesar_snoc msgTipoDesconocido_def o_acute_def)
qed

theorem tipo_desconocido_witness:
  "procesarTransacciones ej_catalogo [] = (ej_catalogo, [])
   \<and> procesarTransacciones ej_catalogo ([] @ [ej_tx ''AJUSTE'' ''P002'' 3]) =
       (ej_catalogo,
        [''ERROR: Tipo de transacci'' @ [CHR 0xC3, CHR 0xB3] @ ''n desconocido '' @ [CHR 0x27]
           @ ''AJUSTE'' @ [CHR 0x27] @ '' para producto P002 (fecha: 2024-01-15)''])"
proof -
  have a: "Tipo (ej_tx ''AJUSTE'' ''P002'' 3) \<noteq> ''VENTA''"
    and b: "Tipo (ej_tx ''AJUSTE'' ''P002'' 3) \<noteq> ''COMPRA''"
    and c: "Tipo (ej_tx ''AJUSTE'' ''P002'' 3) \<noteq> ''DEVOLUCION''"
    by (simp_all add: ej_tx_def)
  have d: "IDProducto (ej_tx ''AJUSTE'' ''P002'' 3) \<in> ID ` set ej_catalogo"
    by (simp add: ej_catalogo_def ej_teclado_def ej_raton_def ej_tx_def)
  have e: "procesarTransacciones ej_catalogo [] = (ej_catalogo, [])"
    by (simp add: procesarTransacciones_def)
  show ?thesis
    using e tipo_desconocido [OF a b c d e] by (simp add: ej_tx_def)
qed

lemma aplicar_comoCompra:
  "fst st = fst st' \<Longrightarrow>
     fst (aplicarTransaccion index (comoCompra t) st) = fst (aplicarTransaccion index t st')"
  by (cases st; cases st') (simp add: comoCompra_def split: option.splits)

lemma bucle_comoCompra:
  "fst st = fst st' \<Longrightarrow>
     fst (bucleTransacciones index (map comoCompra ts) st) = fst (bucleTransacciones index ts st')"
proof (induction ts arbitrary: st st')
  case Nil
  then show ?case by simp
next
  case (Cons t ts)
  from Cons.prems
  have "fst (aplicarTransaccion index (comoCompra t) st) = fst (aplicarTransaccion index t st')"
    by (rule aplicar_comoCompra)
  then show ?case using Cons.IH by simp
qed

text \<open>
  C7. A purchase or a return whose target identifier is in the catalog appends no error
  record and adds the quantity (with Go's addition on \<open>int\<close>) to the stock of the
  product the index gives, changing nothing else, whatever the sign of the quantity.
  The two kinds have the same effect: a purchase and a return with the same target and
  quantity give the same result, and relabelling every return of a run as a purchase
  leaves the final catalog the same.
\<close>

theorem compra_devolucion:
  assumes "Tipo t = ''COMPRA'' \<or> Tipo t = ''DEVOLUCION''"
      and "IDProducto t \<in> ID ` set productos"
      and "procesarTransacciones productos pre = (ps, es)"
  shows "(\<exists>pos. indiceDe productos (IDProducto t) = Some pos
            \<and> pos < length ps \<and> ID (ps ! pos) = IDProducto t
            \<and> procesarTransacciones productos (pre @ [t]) =
                (ps[pos := (ps ! pos)\<lparr>Stock := Stock (ps ! pos) + Cantidad t\<rparr>], es))
         \<and> procesarTransacciones productos (pre @ [t\<lparr>Tipo := ''COMPRA''\<rparr>]) =
             procesarTransacciones productos (pre @ [t\<lparr>Tipo := ''DEVOLUCION''\<rparr>])
         \<and> fst (procesarTransacciones productos (map comoCompra ts)) =
             fst (procesarTransacciones productos ts)"
proof -
  from assms(2) obtain pos where pos: "indiceDe productos (IDProducto t) = Some pos"
    using indice_encontrado by blast
  note cur = indice_en_curso [OF assms(3) pos]
  have "procesarTransacciones productos (pre @ [t]) =
      (ps[pos := (ps ! pos)\<lparr>Stock := Stock (ps ! pos) + Cantidad t\<rparr>], es)"
    using assms(1,3) pos by (auto simp: procesar_snoc)
  with pos cur have "\<exists>pos. indiceDe productos (IDProducto t) = Some pos
            \<and> pos < length ps \<and> ID (ps ! pos) = IDProducto t
            \<and> procesarTransacciones productos (pre @ [t]) =
                (ps[pos := (ps ! pos)\<lparr>Stock := Stock (ps ! pos) + Cantidad t\<rparr>], es)"
    by blast
  moreover have "procesarTransacciones productos (pre @ [t\<lparr>Tipo := ''COMPRA''\<rparr>]) =
      procesarTransacciones productos (pre @ [t\<lparr>Tipo := ''DEVOLUCION''\<rparr>])"
    using assms(3) pos by (simp add: procesar_snoc)
  moreover have "fst (procesarTransacciones productos (map comoCompra ts)) =
      fst (procesarTransacciones productos ts)"
    unfolding procesarTransacciones_def by (rule bucle_comoCompra) simp
  ultimately show ?thesis by blast
qed

theorem compra_devolucion_witness:
  "procesarTransacciones ej_catalogo [ej_tx ''COMPRA'' ''P002'' 3] = ([ej_teclado, ej_raton\<lparr>Stock := 23\<rparr>], [])
   \<and> procesarTransacciones ej_catalogo ([ej_tx ''COMPRA'' ''P002'' 3] @ [ej_tx ''DEVOLUCION'' ''P002'' 4])
       = ([ej_teclado, ej_raton\<lparr>Stock := 27\<rparr>], [])
   \<and> procesarTransacciones ej_catalogo ([ej_tx ''COMPRA'' ''P002'' 3] @ [ej_tx ''COMPRA'' ''P002'' 4])
       = ([ej_teclado, ej_raton\<lparr>Stock := 27\<rparr>], [])"
proof -
  have a: "Tipo (ej_tx ''DEVOLUCION'' ''P002'' 4) = ''COMPRA'' \<or> Tipo (ej_tx ''DEVOLUCION'' ''P002'' 4) = ''DEVOLUCION''"
    by (simp add: ej_tx_def)
  have b: "IDProducto (ej_tx ''DEVOLUCION'' ''P002'' 4) \<in> ID ` set ej_catalogo"
    by (simp add: ej_catalogo_def ej_teclado_def ej_raton_def ej_tx_def)
  have c: "procesarTransacciones ej_catalogo [ej_tx ''COMPRA'' ''P002'' 3] = ([ej_teclado, ej_raton\<lparr>Stock := 23\<rparr>], [])"
    by (simp add: procesarTransacciones_def ej_catalogo_def ej_teclado_def ej_raton_def ej_tx_def)
  have d: "indiceDe ej_catalogo ''P002'' = Some 1"
    by (simp add: ej_catalogo_def ej_teclado_def ej_raton_def)
  show ?thesis
    using c d compra_devolucion [OF a b c, of "[]"]
    by (simp add: ej_tx_def ej_raton_def)
qed

text \<open>
  C10. A purchase or a return with a negative quantity, on a target that is in the
  catalog, appends no error record and takes the absolute value of the quantity off
  the stock (with Go's subtraction on \<open>int\<close>), with no check of the result. Unless that
  leaves the range of \<open>int\<close>, the stock goes down by that absolute value as an integer,
  and it becomes negative when the stock was smaller than the absolute value: only
  the sale path has a guard.
\<close>

theorem compra_negativa:
  assumes "Tipo t = ''COMPRA'' \<or> Tipo t = ''DEVOLUCION''"
      and "Cantidad t <s 0"
      and "IDProducto t \<in> ID ` set productos"
      and "procesarTransacciones productos pre = (ps, es)"
  shows "\<exists>pos. indiceDe productos (IDProducto t) = Some pos
           \<and> pos < length ps \<and> ID (ps ! pos) = IDProducto t
           \<and> procesarTransacciones productos (pre @ [t]) =
               (ps[pos := (ps ! pos)\<lparr>Stock := Stock (ps ! pos) - word_of_int \<bar>sint (Cantidad t)\<bar>\<rparr>], es)
           \<and> (- (2 ^ 63) \<le> sint (Stock (ps ! pos)) - \<bar>sint (Cantidad t)\<bar> \<longrightarrow>
                sint (Stock (ps ! pos) - word_of_int \<bar>sint (Cantidad t)\<bar>)
                  = sint (Stock (ps ! pos)) - \<bar>sint (Cantidad t)\<bar>
                \<and> Stock (ps ! pos) - word_of_int \<bar>sint (Cantidad t)\<bar> <s Stock (ps ! pos)
                \<and> (sint (Stock (ps ! pos)) < \<bar>sint (Cantidad t)\<bar> \<longrightarrow>
                     Stock (ps ! pos) - word_of_int \<bar>sint (Cantidad t)\<bar> <s 0))"
proof -
  from assms(3) obtain pos where pos: "indiceDe productos (IDProducto t) = Some pos"
    using indice_encontrado by blast
  note cur = indice_en_curso [OF assms(4) pos]
  let ?s = "Stock (ps ! pos)" and ?q = "Cantidad t"
  from assms(2) have neg: "sint ?q < 0" by (simp add: word_sless_alt)
  then have "word_of_int \<bar>sint ?q\<bar> = - ?q" by simp
  then have eq: "?s - word_of_int \<bar>sint ?q\<bar> = ?s + ?q" by simp
  have step: "procesarTransacciones productos (pre @ [t]) =
      (ps[pos := (ps ! pos)\<lparr>Stock := ?s - word_of_int \<bar>sint ?q\<bar>\<rparr>], es)"
    unfolding eq using assms(1,4) pos by (auto simp: procesar_snoc)
  have ar: "sint (?s - word_of_int \<bar>sint ?q\<bar>) = sint ?s - \<bar>sint ?q\<bar>"
    if "- (2 ^ 63) \<le> sint ?s - \<bar>sint ?q\<bar>"
  proof -
    have "sint (?s + ?q) = sint ?s + sint ?q"
      using that neg sint_cotas [of ?s] by (intro sint_suma) simp_all
    with neg show ?thesis by (simp add: eq)
  qed
  then have ord: "?s - word_of_int \<bar>sint ?q\<bar> <s ?s"
    if "- (2 ^ 63) \<le> sint ?s - \<bar>sint ?q\<bar>"
    using that neg by (simp add: word_sless_alt)
  have sgn: "?s - word_of_int \<bar>sint ?q\<bar> <s 0"
    if "- (2 ^ 63) \<le> sint ?s - \<bar>sint ?q\<bar>" "sint ?s < \<bar>sint ?q\<bar>"
    using that ar by (simp add: word_sless_alt)
  show ?thesis
    using pos cur step ar ord sgn by blast
qed

theorem compra_negativa_witness:
  "procesarTransacciones ej_catalogo [] = (ej_catalogo, [])
   \<and> procesarTransacciones ej_catalogo ([] @ [ej_tx ''COMPRA'' ''P001'' (- 8)])
       = ([ej_teclado\<lparr>Stock := - 3\<rparr>, ej_raton], [])
   \<and> Stock (ej_teclado\<lparr>Stock := - 3\<rparr>) <s 0"
proof -
  have a: "Tipo (ej_tx ''COMPRA'' ''P001'' (- 8)) = ''COMPRA'' \<or> Tipo (ej_tx ''COMPRA'' ''P001'' (- 8)) = ''DEVOLUCION''"
    by (simp add: ej_tx_def)
  have b: "Cantidad (ej_tx ''COMPRA'' ''P001'' (- 8)) <s 0"
    by (simp add: ej_tx_def word_sless_alt)
  have c: "IDProducto (ej_tx ''COMPRA'' ''P001'' (- 8)) \<in> ID ` set ej_catalogo"
    by (simp add: ej_catalogo_def ej_teclado_def ej_raton_def ej_tx_def)
  have d: "procesarTransacciones ej_catalogo [] = (ej_catalogo, [])"
    by (simp add: procesarTransacciones_def)
  have e: "indiceDe ej_catalogo ''P001'' = Some 0"
    by (simp add: ej_catalogo_def ej_teclado_def ej_raton_def)
  show ?thesis
    using d e compra_negativa [OF a b c d]
    by (simp add: ej_tx_def ej_catalogo_def ej_teclado_def word_sless_alt)
qed

lemma aplicar_fuera_del_indice:
  assumes "\<forall>k. index k \<noteq> Some i"
  shows "fst (aplicarTransaccion index t st) ! i = fst st ! i"
proof (cases st)
  case (Pair ps es)
  show ?thesis
  proof (cases "index (IDProducto t)")
    case None
    with Pair show ?thesis by simp
  next
    case (Some pos)
    with assms have "pos \<noteq> i" by auto
    with Pair Some show ?thesis by simp
  qed
qed

lemma bucle_fuera_del_indice:
  "\<forall>k. index k \<noteq> Some i \<Longrightarrow> fst (bucleTransacciones index ts st) ! i = fst st ! i"
  by (induction ts arbitrary: st) (simp_all add: aplicar_fuera_del_indice)

lemma aplicar_otra_posicion:
  "index (IDProducto t) \<noteq> Some i \<Longrightarrow> fst (aplicarTransaccion index t st) ! i = fst st ! i"
  by (cases st; cases "index (IDProducto t)") auto

text \<open>
  C9. With duplicated identifiers the lookup is last-seen-wins: the index maps an
  identifier to a position exactly when that position is the last one in the catalog
  carrying the identifier. A product followed by another with the same identifier is
  never mutated by any run, and a transaction changes no position other than the one
  the index gives for its target.
\<close>

theorem ultimo_gana:
  "(indiceDe productos k = Some pos \<longleftrightarrow>
      pos < length productos \<and> ID (productos ! pos) = k
      \<and> (\<forall>j. pos < j \<and> j < length productos \<longrightarrow> ID (productos ! j) \<noteq> k))
   \<and> (i < j \<and> j < length productos \<and> ID (productos ! j) = ID (productos ! i) \<longrightarrow>
        fst (procesarTransacciones productos ts) ! i = productos ! i)
   \<and> (fst (procesarTransacciones productos (pre @ [t])) ! n \<noteq> fst (procesarTransacciones productos pre) ! n \<longrightarrow>
        indiceDe productos (IDProducto t) = Some n)"
proof (intro conjI impI)
  show "indiceDe productos k = Some pos \<longleftrightarrow>
      pos < length productos \<and> ID (productos ! pos) = k
      \<and> (\<forall>j. pos < j \<and> j < length productos \<longrightarrow> ID (productos ! j) \<noteq> k)"
    by (rule indice_Some)
next
  assume dup: "i < j \<and> j < length productos \<and> ID (productos ! j) = ID (productos ! i)"
  have "indiceDe productos k \<noteq> Some i" for k
  proof
    assume "indiceDe productos k = Some i"
    then have "ID (productos ! i) = k" "\<forall>j. i < j \<and> j < length productos \<longrightarrow> ID (productos ! j) \<noteq> k"
      by (simp_all add: indice_Some)
    with dup show False by auto
  qed
  then have "\<forall>k. indiceDe productos k \<noteq> Some i" by blast
  then show "fst (procesarTransacciones productos ts) ! i = productos ! i"
    unfolding procesarTransacciones_def by (simp add: bucle_fuera_del_indice)
next
  assume ch: "fst (procesarTransacciones productos (pre @ [t])) ! n \<noteq> fst (procesarTransacciones productos pre) ! n"
  show "indiceDe productos (IDProducto t) = Some n"
  proof (rule ccontr)
    assume "indiceDe productos (IDProducto t) \<noteq> Some n"
    then have "fst (procesarTransacciones productos (pre @ [t])) ! n = fst (procesarTransacciones productos pre) ! n"
      unfolding procesar_snoc by (rule aplicar_otra_posicion)
    with ch show False by simp
  qed
qed

theorem ultimo_gana_witness:
  "indiceDe [ej_teclado, ej_raton, ej_duplicado] ''P001'' = Some 2
   \<and> ID ([ej_teclado, ej_raton, ej_duplicado] ! 2) = ID ([ej_teclado, ej_raton, ej_duplicado] ! 0)
   \<and> procesarTransacciones [ej_teclado, ej_raton, ej_duplicado]
        [ej_tx ''VENTA'' ''P001'' 6, ej_tx ''COMPRA'' ''P001'' 10]
       = ([ej_teclado, ej_raton, ej_duplicado\<lparr>Stock := 11\<rparr>], [])
   \<and> fst (procesarTransacciones [ej_teclado, ej_raton, ej_duplicado]
        [ej_tx ''VENTA'' ''P001'' 6, ej_tx ''COMPRA'' ''P001'' 10]) ! 0 = ej_teclado"
proof -
  have a: "(0::nat) < 2 \<and> 2 < length [ej_teclado, ej_raton, ej_duplicado]
      \<and> ID ([ej_teclado, ej_raton, ej_duplicado] ! 2) = ID ([ej_teclado, ej_raton, ej_duplicado] ! 0)"
    by (simp add: ej_teclado_def ej_duplicado_def)
  have b: "procesarTransacciones [ej_teclado, ej_raton, ej_duplicado]
        [ej_tx ''VENTA'' ''P001'' 6, ej_tx ''COMPRA'' ''P001'' 10]
       = ([ej_teclado, ej_raton, ej_duplicado\<lparr>Stock := 11\<rparr>], [])"
    by (simp add: procesarTransacciones_def ej_teclado_def ej_raton_def ej_duplicado_def ej_tx_def)
  have c: "indiceDe [ej_teclado, ej_raton, ej_duplicado] ''P001'' = Some 2"
    by (simp add: ej_teclado_def ej_raton_def ej_duplicado_def)
  show ?thesis
    using a b c
      ultimo_gana [of "[ej_teclado, ej_raton, ej_duplicado]" "''P001''" 2 0 2
        "[ej_tx ''VENTA'' ''P001'' 6, ej_tx ''COMPRA'' ''P001'' 10]" "[]" "ej_tx ''VENTA'' ''P001'' 6" 2]
    by simp
qed

lemma bucleReporte_filtro:
  "bucleReporte ps limite (f, c) =
     (f @ map lineaReporte (filter (\<lambda>p. Stock p <s limite) ps),
      c + int (length (filter (\<lambda>p. Stock p <s limite) ps)))"
  by (induction ps arbitrary: f c) simp_all

text \<open>
  C8. When the report file can be created, the low-stock reporter writes the two header
  lines, then one line for each product whose stock is strictly below the threshold
  (as signed integers; a stock equal to the threshold is not listed), in catalog
  order and for no other product, then the count line, whose number is the number of
  listed products. When the file cannot be created it returns the error and writes
  nothing.
\<close>

theorem reporte_bajo_stock:
  "generarReporteBajoStock None productos limite =
     Inr ([''ALERTA: PRODUCTOS CON BAJO STOCK'' @ [CHR 0x0A],
           ''================================'' @ [CHR 0x0A]]
          @ map (\<lambda>p. ''ID: '' @ ID p @ '' | '' @ Nombre p @ '' | Stock actual: ''
                        @ fmt_d (sint (Stock p)) @ '' unidades'' @ [CHR 0x0A])
              (filter (\<lambda>p. sint (Stock p) < sint limite) productos)
          @ [''Total de productos con bajo stock: ''
               @ fmt_d (int (length (filter (\<lambda>p. sint (Stock p) < sint limite) productos)))
               @ [CHR 0x0A]])
   \<and> generarReporteBajoStock (Some err) productos limite =
       Inl (ErrCrear (''no se pudo crear reporte bajo stock: '' @ err))"
proof -
  have "lineaReporte = (\<lambda>p. ''ID: '' @ ID p @ '' | '' @ Nombre p @ '' | Stock actual: ''
                        @ fmt_d (sint (Stock p)) @ '' unidades'' @ [CHR 0x0A])"
    by (rule ext) (simp add: lineaReporte_def)
  then show ?thesis
    by (simp add: generarReporteBajoStock_def bucleReporte_filtro word_sless_alt)
qed

theorem reporte_bajo_stock_witness:
  "generarReporteBajoStock None [ej_teclado, ej_raton, ej_duplicado] 7 =
     Inr [''ALERTA: PRODUCTOS CON BAJO STOCK'' @ [CHR 0x0A],
          ''================================'' @ [CHR 0x0A],
          ''ID: P001 | Teclado | Stock actual: 5 unidades'' @ [CHR 0x0A],
          ''Total de productos con bajo stock: 1'' @ [CHR 0x0A]]"
  using reporte_bajo_stock [of "[ej_teclado, ej_raton, ej_duplicado]" 7]
  by (simp add: ej_teclado_def ej_raton_def ej_duplicado_def fmt_d_def digitos.simps)

text \<open>
  C2 as stated fails: a sale with a negative quantity passes the guard and the
  subtraction wraps around. On the catalog of one product with the largest stock an
  \<open>int\<close> holds, the sale of quantity -1 is applied (no error record) and leaves the
  smallest \<open>int\<close>, a negative stock.
\<close>

theorem venta_no_negativa_counterexample:
  "distinct (map ID [ej_lleno])
   \<and> procesarTransacciones [ej_lleno] [ej_tx ''VENTA'' ''P003'' (- 1)]
       = ([ej_lleno\<lparr>Stock := - 0x8000000000000000\<rparr>], [])
   \<and> sint (Stock (fst (procesarTransacciones [ej_lleno] [ej_tx ''VENTA'' ''P003'' (- 1)]) ! 0))
       = - 9223372036854775808
   \<and> \<not> 0 \<le>s Stock (fst (procesarTransacciones [ej_lleno] [ej_tx ''VENTA'' ''P003'' (- 1)]) ! 0)"
  by (simp add: procesarTransacciones_def ej_lleno_def ej_tx_def word_sless_alt word_sle_eq)

text \<open>
  C2, amended. On a catalog with unique identifiers, a sale applied after any prefix of
  a run, whose quantity is not negative (or, more generally, for which stock minus
  quantity does not exceed the largest \<open>int\<close>): if the stock of the target product is
  less than the quantity the sale is refused, with one error record appended and the
  catalog unchanged; otherwise only the stock of the target changes and it is not
  negative afterwards.
\<close>

theorem venta_no_negativa:
  assumes "distinct (map ID productos)"
      and "Tipo t = ''VENTA''"
      and "procesarTransacciones productos pre = (ps, es)"
      and "i < length ps" and "ID (ps ! i) = IDProducto t"
      and "0 \<le>s Cantidad t \<or> sint (Stock (ps ! i)) - sint (Cantidad t) < 2 ^ 63"
  shows "if Stock (ps ! i) <s Cantidad t
         then fst (procesarTransacciones productos (pre @ [t])) = ps
              \<and> length (snd (procesarTransacciones productos (pre @ [t]))) = Suc (length es)
         else procesarTransacciones productos (pre @ [t]) =
                (ps[i := (ps ! i)\<lparr>Stock := Stock (ps ! i) - Cantidad t\<rparr>], es)
              \<and> 0 \<le>s Stock (fst (procesarTransacciones productos (pre @ [t])) ! i)"
proof -
  have ids: "map ID ps = map ID productos"
    using procesar_ids [of productos pre] assms(3) by simp
  have "ID (ps ! i) \<in> ID ` set ps"
    using assms(4) by simp
  also have "ID ` set ps = ID ` set productos"
    using arg_cong [OF ids, of set] by simp
  finally obtain pos where pos: "indiceDe productos (IDProducto t) = Some pos"
    using indice_encontrado assms(5) by metis
  note cur = indice_en_curso [OF assms(3) pos]
  have dis: "distinct (map ID ps)" using ids assms(1) by simp
  have lp: "pos < length (map ID ps)" and li: "i < length (map ID ps)"
    using cur assms(4) by simp_all
  have "map ID ps ! pos = map ID ps ! i"
    using cur assms(4,5) by simp
  then have "pos = i"
    by (rule iffD1 [OF nth_eq_iff_index_eq [OF dis lp li]])
  with pos have idx: "indiceDe productos (IDProducto t) = Some i" by simp
  let ?s = "Stock (ps ! i)" and ?q = "Cantidad t"
  show ?thesis
  proof (cases "?s <s ?q")
    case True
    then show ?thesis
      using assms(2,3) idx by (simp add: procesar_snoc)
  next
    case False
    then have le: "sint ?q \<le> sint ?s" by (simp add: word_sless_alt)
    have hi: "sint ?s - sint ?q < 2 ^ 63"
    proof (cases "0 \<le>s ?q")
      case True
      then have "0 \<le> sint ?q" by (simp add: word_sle_eq)
      with sint_cotas(2) [of ?s] show ?thesis by simp
    next
      case False
      with assms(6) show ?thesis by simp
    qed
    have "sint (?s - ?q) = sint ?s - sint ?q"
      using le hi by (intro sint_resta) simp_all
    with le have nn: "0 \<le>s ?s - ?q" by (simp add: word_sle_eq)
    have step: "procesarTransacciones productos (pre @ [t]) =
        (ps[i := (ps ! i)\<lparr>Stock := ?s - ?q\<rparr>], es)"
      using False assms(2,3) idx by (simp add: procesar_snoc)
    show ?thesis
      using False step nn assms(4) by simp
  qed
qed

theorem venta_no_negativa_witness:
  "distinct (map ID ej_catalogo)
   \<and> procesarTransacciones ej_catalogo [ej_tx ''COMPRA'' ''P002'' 1] = ([ej_teclado, ej_raton\<lparr>Stock := 21\<rparr>], [])
   \<and> procesarTransacciones ej_catalogo ([ej_tx ''COMPRA'' ''P002'' 1] @ [ej_tx ''VENTA'' ''P002'' 21])
       = ([ej_teclado, ej_raton\<lparr>Stock := 0\<rparr>], [])
   \<and> 0 \<le>s Stock (fst (procesarTransacciones ej_catalogo
         ([ej_tx ''COMPRA'' ''P002'' 1] @ [ej_tx ''VENTA'' ''P002'' 21])) ! 1)"
proof -
  have a: "distinct (map ID ej_catalogo)"
    by (simp add: ej_catalogo_def ej_teclado_def ej_raton_def)
  have b: "Tipo (ej_tx ''VENTA'' ''P002'' 21) = ''VENTA''"
    by (simp add: ej_tx_def)
  have c: "procesarTransacciones ej_catalogo [ej_tx ''COMPRA'' ''P002'' 1] = ([ej_teclado, ej_raton\<lparr>Stock := 21\<rparr>], [])"
    by (simp add: procesarTransacciones_def ej_catalogo_def ej_teclado_def ej_raton_def ej_tx_def)
  have d: "1 < length [ej_teclado, ej_raton\<lparr>Stock := 21\<rparr>]"
    by simp
  have e: "ID ([ej_teclado, ej_raton\<lparr>Stock := 21\<rparr>] ! 1) = IDProducto (ej_tx ''VENTA'' ''P002'' 21)"
    by (simp add: ej_raton_def ej_tx_def)
  have f: "0 \<le>s Cantidad (ej_tx ''VENTA'' ''P002'' 21)
      \<or> sint (Stock ([ej_teclado, ej_raton\<lparr>Stock := 21\<rparr>] ! 1)) - sint (Cantidad (ej_tx ''VENTA'' ''P002'' 21)) < 2 ^ 63"
    by (simp add: ej_tx_def word_sle_eq)
  show ?thesis
    using a c venta_no_negativa [OF a b c d e f]
    by (simp add: ej_tx_def ej_raton_def word_sless_alt)
qed

lemma numFallos_snoc:
  "numFallos productos (ts @ [t]) =
     numFallos productos ts
       + (if condicionFallo (fst (procesarTransacciones productos ts)) t then 1 else 0)"
proof -
  let ?P = "\<lambda>xs k. condicionFallo (fst (procesarTransacciones productos (take k xs))) (xs ! k)"
  have "filter (?P (ts @ [t])) [0..<length ts] = filter (?P ts) [0..<length ts]"
    by (rule filter_cong) (auto simp: nth_append)
  then show ?thesis
    by (simp add: numFallos_def)
qed

lemma aplicar_errores:
  assumes "map ID ps = map ID productos"
  shows "(condicionFallo ps t \<longrightarrow>
            (\<exists>e. snd (aplicarTransaccion (indiceDe productos) t (ps, es)) = es @ [e]))
         \<and> (\<not> condicionFallo ps t \<longrightarrow>
            snd (aplicarTransaccion (indiceDe productos) t (ps, es)) = es)"
proof -
  have ind: "indiceDe productos = indiceDe ps"
    using assms by (intro indice_cong) simp
  show ?thesis
  proof (cases "indiceDe ps (IDProducto t)")
    case None
    then have "IDProducto t \<notin> ID ` set ps" by (simp add: indice_None)
    with None show ?thesis by (simp add: ind condicionFallo_def)
  next
    case (Some pos)
    then have "ps ! pos = objetivo ps (IDProducto t)"
      unfolding objetivo_def by (rule indice_ultimo)
    moreover have "IDProducto t \<in> ID ` set ps"
      using Some indice_None [of ps "IDProducto t"] by auto
    ultimately show ?thesis
      using Some by (simp add: ind condicionFallo_def)
  qed
qed

lemma procesar_errores_snoc:
  "(condicionFallo (fst (procesarTransacciones productos pre)) t \<longrightarrow>
      (\<exists>e. snd (procesarTransacciones productos (pre @ [t])) =
             snd (procesarTransacciones productos pre) @ [e]))
   \<and> (\<not> condicionFallo (fst (procesarTransacciones productos pre)) t \<longrightarrow>
      snd (procesarTransacciones productos (pre @ [t])) = snd (procesarTransacciones productos pre))"
proof -
  obtain ps es where st: "procesarTransacciones productos pre = (ps, es)"
    by (cases "procesarTransacciones productos pre")
  have "map ID ps = map ID productos"
    using procesar_ids [of productos pre] st by simp
  from aplicar_errores [OF this, of t es] show ?thesis
    by (simp add: procesar_snoc st)
qed

text \<open>
  C4. The number of error records of a run is the number of its transactions that meet
  one of the three failure conditions (target not found, sale with insufficient stock,
  unrecognised kind) on the catalog as it stands when they are reached. A transaction
  that meets one lengthens the records by exactly one, every other transaction by
  none, and the records already present stay as they are.
\<close>

theorem cuenta_errores:
  "length (snd (procesarTransacciones productos ts)) = numFallos productos ts
   \<and> length (snd (procesarTransacciones productos (pre @ [t]))) =
       length (snd (procesarTransacciones productos pre))
         + (if condicionFallo (fst (procesarTransacciones productos pre)) t then 1 else 0)
   \<and> take (length (snd (procesarTransacciones productos pre)))
         (snd (procesarTransacciones productos (pre @ [t])))
       = snd (procesarTransacciones productos pre)"
proof (intro conjI)
  have paso: "length (snd (procesarTransacciones productos (xs @ [x]))) =
      length (snd (procesarTransacciones productos xs))
        + (if condicionFallo (fst (procesarTransacciones productos xs)) x then 1 else 0)" for xs x
    using procesar_errores_snoc [of productos xs x] by auto
  show "length (snd (procesarTransacciones productos ts)) = numFallos productos ts"
  proof (induction ts rule: rev_induct)
    case Nil
    show ?case by (simp add: procesarTransacciones_def numFallos_def)
  next
    case (snoc x xs)
    with paso [of xs x] show ?case by (simp add: numFallos_snoc)
  qed
  show "length (snd (procesarTransacciones productos (pre @ [t]))) =
       length (snd (procesarTransacciones productos pre))
         + (if condicionFallo (fst (procesarTransacciones productos pre)) t then 1 else 0)"
    by (rule paso)
  show "take (length (snd (procesarTransacciones productos pre)))
         (snd (procesarTransacciones productos (pre @ [t])))
       = snd (procesarTransacciones productos pre)"
    using procesar_errores_snoc [of productos pre t] by auto
qed

theorem cuenta_errores_witness:
  "numFallos ej_catalogo
     [ej_tx ''VENTA'' ''P001'' 8, ej_tx ''COMPRA'' ''P999'' 1, ej_tx ''AJUSTE'' ''P002'' 2,
      ej_tx ''VENTA'' ''P001'' 5, ej_tx ''DEVOLUCION'' ''P002'' 3] = 3
   \<and> length (snd (procesarTransacciones ej_catalogo
       [ej_tx ''VENTA'' ''P001'' 8, ej_tx ''COMPRA'' ''P999'' 1, ej_tx ''AJUSTE'' ''P002'' 2,
        ej_tx ''VENTA'' ''P001'' 5, ej_tx ''DEVOLUCION'' ''P002'' 3])) = 3
   \<and> fst (procesarTransacciones ej_catalogo
       [ej_tx ''VENTA'' ''P001'' 8, ej_tx ''COMPRA'' ''P999'' 1, ej_tx ''AJUSTE'' ''P002'' 2,
        ej_tx ''VENTA'' ''P001'' 5, ej_tx ''DEVOLUCION'' ''P002'' 3])
       = [ej_teclado\<lparr>Stock := 0\<rparr>, ej_raton\<lparr>Stock := 23\<rparr>]"
proof -
  have n: "numFallos ej_catalogo
     [ej_tx ''VENTA'' ''P001'' 8, ej_tx ''COMPRA'' ''P999'' 1, ej_tx ''AJUSTE'' ''P002'' 2,
      ej_tx ''VENTA'' ''P001'' 5, ej_tx ''DEVOLUCION'' ''P002'' 3] = 3"
    by code_simp
  have f: "fst (procesarTransacciones ej_catalogo
       [ej_tx ''VENTA'' ''P001'' 8, ej_tx ''COMPRA'' ''P999'' 1, ej_tx ''AJUSTE'' ''P002'' 2,
        ej_tx ''VENTA'' ''P001'' 5, ej_tx ''DEVOLUCION'' ''P002'' 3])
       = [ej_teclado\<lparr>Stock := 0\<rparr>, ej_raton\<lparr>Stock := 23\<rparr>]"
    by (simp add: procesarTransacciones_def ej_catalogo_def ej_teclado_def ej_raton_def ej_tx_def
          word_sless_alt)
  show ?thesis
    using n f
      cuenta_errores [of ej_catalogo
        "[ej_tx ''VENTA'' ''P001'' 8, ej_tx ''COMPRA'' ''P999'' 1, ej_tx ''AJUSTE'' ''P002'' 2,
          ej_tx ''VENTA'' ''P001'' 5, ej_tx ''DEVOLUCION'' ''P002'' 3]" "[]" "ej_tx ''VENTA'' ''P001'' 8"]
    by simp
qed

end
